theory Spec2Isabelle
  imports Main "HOL-Library.Word"
begin

section \<open>The native transport library, as seen from UCXUtils.cpp\<close>

text \<open>
  UCXUtils.cpp is a thin layer over the native transport library. The library's types,
  macros and functions are declared in the library's own headers, which are not part of
  the sources; the layer's class declarations (\<open>UCPRequest\<close>, \<open>UCPWorker\<close>,
  \<open>UCPEndpoint\<close>, \<open>TORCH_UCX_CHECK\<close>) are in \<open>UCXUtils.hpp\<close>, which is not among
  them either. The library is a parameter of the model: a record of functions over an
  opaque library state \<open>'w\<close>, one per native entry point the code calls. Every function
  of UCXUtils.cpp is translated statement by statement on top of it.
\<close>

text \<open>Modelled from the spec: the native status type \<open>ucs_status_t\<close>. The code compares
  against \<open>UCS_OK\<close> only; the spec distinguishes the immediate success status, a pending
  operation and "a hard native error". The error number is kept as a natural number.\<close>

datatype ucs_status = UCS_OK | UCS_INPROGRESS | UCS_ERR nat

text \<open>Modelled from the spec: the native status pointer \<open>ucs_status_ptr_t\<close>, the result of
  every non-blocking native operation. It is one machine pointer that encodes three
  cases: the null pointer (the operation finished at once, status OK), an error status,
  or the address of a request object allocated by the library.\<close>

datatype ucs_status_ptr = NullPtr | ErrPtr nat | ReqPtr nat

text \<open>Modelled from the spec: the native decoding macros used by the code, on the three
  cases of a status pointer ("native OK status", "non-OK, non-pointer status", "pending").\<close>

fun UCS_PTR_STATUS :: "ucs_status_ptr \<Rightarrow> ucs_status" where
  "UCS_PTR_STATUS NullPtr = UCS_OK"
| "UCS_PTR_STATUS (ErrPtr e) = UCS_ERR e"
| "UCS_PTR_STATUS (ReqPtr a) = UCS_INPROGRESS"

fun UCS_PTR_IS_ERR :: "ucs_status_ptr \<Rightarrow> bool" where
  "UCS_PTR_IS_ERR (ErrPtr e) = True"
| "UCS_PTR_IS_ERR p = False"

fun UCS_PTR_IS_PTR :: "ucs_status_ptr \<Rightarrow> bool" where
  "UCS_PTR_IS_PTR (ReqPtr a) = True"
| "UCS_PTR_IS_PTR p = False"

text \<open>The memory kinds and device kinds named in \<open>getUCSMemoryType\<close>. Both enumerations
  have further members in their (absent) declarations; the device kinds the switch does
  not name are \<open>kOtherDevice\<close>.\<close>

datatype ucs_memory_type =
  UCS_MEMORY_TYPE_HOST | UCS_MEMORY_TYPE_CUDA | UCS_MEMORY_TYPE_ROCM | UCS_MEMORY_TYPE_UNKNOWN

datatype DeviceType = kCPU | kCUDA | kHIP | kOtherDevice nat

text \<open>Modelled from the spec: \<open>UCPRequest::Data\<close>, the per-request state the layer keeps
  in the library's request memory: "a completion flag (boolean)".\<close>

record Data =
  completed :: bool

text \<open>\<open>ucp_tag_recv_info_t\<close>, the third argument of a receive completion callback.\<close>

record ucp_tag_recv_info =
  sender_tag :: "64 word"
  info_length :: nat

datatype ucp_op_attr =
  UCP_OP_ATTR_FIELD_CALLBACK | UCP_OP_ATTR_FIELD_DATATYPE | UCP_OP_ATTR_FIELD_MEMORY_TYPE

text \<open>\<open>ucp_dt_make_contig(size)\<close>: a contiguous datatype whose element has \<open>size\<close> bytes.
  The macro packs the size into the upper bits of a 64-bit word; the constructor stands
  for its result on the sizes it packs without loss (below \<open>2 ^ 61\<close>). No property below
  reads this field.\<close>

datatype ucp_datatype = ucp_dt_make_contig nat

text \<open>The fields of \<open>ucp_request_param_t\<close> that \<open>submit_p2p_request\<close> sets. A callback
  receives the request memory as a pointer and writes through it; here it takes the
  pointee and returns the updated pointee.\<close>

record ucp_request_param =
  op_attr_mask :: "ucp_op_attr set"
  param_datatype :: ucp_datatype
  memory_type :: ucs_memory_type
  cb_recv :: "Data \<Rightarrow> ucs_status \<Rightarrow> ucp_tag_recv_info \<Rightarrow> nat \<Rightarrow> Data"

datatype ucp_param_field =
  UCP_PARAM_FIELD_FEATURES | UCP_PARAM_FIELD_REQUEST_SIZE |
  UCP_PARAM_FIELD_REQUEST_INIT | UCP_PARAM_FIELD_REQUEST_CLEANUP

datatype ucp_feature = UCP_FEATURE_TAG

text \<open>The fields of \<open>ucp_params_t\<close> that the context constructor sets.\<close>

record ucp_params =
  field_mask :: "ucp_param_field set"
  request_size :: nat
  features :: "ucp_feature set"
  request_init :: "Data \<Rightarrow> Data"
  request_cleanup :: "Data \<Rightarrow> Data"

datatype ucp_ep_close_mode = UCP_EP_CLOSE_MODE_FLUSH

text \<open>
  The native library. Each field is one native entry point, as a function of the
  library's state; handles of workers, endpoints and contexts and buffer addresses are
  natural numbers, tags are 64-bit words.
  \<^item> \<open>lib_worker_progress\<close> returns the completions the library delivers during this
    progress call: the arguments each completion callback is invoked with (the request,
    the status, the receive information, the user data).
  \<^item> \<open>lib_worker_get_address\<close> returns the status and the bytes of the address buffer;
    \<open>local_addr_len\<close> is the length of that list.
  \<^item> \<open>lib_request_raw\<close> is the content of the request memory at an address before the
    registered initializer has run on it.
\<close>

record 'w ucx_lib =
  lib_config_read :: "'w \<Rightarrow> ucs_status \<times> 'w"
  lib_init :: "'w \<Rightarrow> ucp_params \<Rightarrow> ucs_status \<times> nat \<times> 'w"
  lib_config_release :: "'w \<Rightarrow> 'w"
  lib_cleanup :: "'w \<Rightarrow> nat \<Rightarrow> 'w"
  lib_worker_get_address :: "'w \<Rightarrow> nat \<Rightarrow> ucs_status \<times> 8 word list \<times> 'w"
  lib_worker_release_address :: "'w \<Rightarrow> nat \<Rightarrow> 'w"
  lib_ep_close_nb :: "'w \<Rightarrow> nat \<Rightarrow> ucp_ep_close_mode \<Rightarrow> ucs_status_ptr \<times> 'w"
  lib_worker_progress ::
    "'w \<Rightarrow> nat \<Rightarrow> (nat \<times> ucs_status \<times> ucp_tag_recv_info \<times> nat) list \<times> 'w"
  lib_request_check_status :: "'w \<Rightarrow> ucs_status_ptr \<Rightarrow> ucs_status"
  lib_request_free :: "'w \<Rightarrow> ucs_status_ptr \<Rightarrow> 'w"
  lib_tag_recv_nbx ::
    "'w \<Rightarrow> nat \<Rightarrow> nat \<Rightarrow> nat \<Rightarrow> 64 word \<Rightarrow> 64 word \<Rightarrow> ucp_request_param \<Rightarrow> ucs_status_ptr \<times> 'w"
  lib_tag_send_nbx ::
    "'w \<Rightarrow> nat \<Rightarrow> nat \<Rightarrow> nat \<Rightarrow> 64 word \<Rightarrow> ucp_request_param \<Rightarrow> ucs_status_ptr \<times> 'w"
  lib_request_raw :: "'w \<Rightarrow> nat \<Rightarrow> Data"
  lib_status_string :: "ucs_status \<Rightarrow> string"

text \<open>The calls the layer makes, in the order it makes them, with their arguments.\<close>

datatype call =
  Call_config_read
| Call_init ucp_params
| Call_config_release
| Call_cleanup nat
| Call_worker_get_address nat
| Call_worker_release_address nat
| Call_ep_close_nb nat ucp_ep_close_mode
| Call_worker_progress nat
| Call_request_check_status ucs_status_ptr
| Call_request_free ucs_status_ptr
| Call_tag_recv_nbx nat nat nat "64 word" "64 word" ucp_request_param
| Call_tag_send_nbx nat nat nat "64 word" ucp_request_param
| Call_TORCH_WARN string

text \<open>One request object in the library's request memory: the layer's \<open>Data\<close> and the
  completion callback the operation was submitted with.\<close>

record request_slot =
  slot_data :: Data
  slot_cb :: "(Data \<Rightarrow> ucs_status \<Rightarrow> ucp_tag_recv_info \<Rightarrow> nat \<Rightarrow> Data) option"

text \<open>
  The state the code runs in: the library's own state, the parameters the context was
  initialised with (\<open>None\<close> before \<open>ucp_init\<close> succeeds), the live request objects of
  submitted sends and receives by address, and the trace of calls made so far.
\<close>

record 'w world =
  native :: 'w
  registered :: "ucp_params option"
  requests :: "nat \<rightharpoonup> request_slot"
  trace :: "call list"

section \<open>Native calls, with their effect on the state\<close>

text \<open>Modelled from the spec: one completion delivered by the library during a progress
  call ("the native library's completion callback"). The callback the operation was
  submitted with runs on the request's memory, with the status, the receive information and the
  user data the library passes. A completion for an address that holds no live request,
  or for a request submitted without a callback, changes nothing.\<close>

fun deliver ::
  "nat \<times> ucs_status \<times> ucp_tag_recv_info \<times> nat \<Rightarrow> (nat \<rightharpoonup> request_slot) \<Rightarrow> (nat \<rightharpoonup> request_slot)"
where
  "deliver (a, status, info, user_data) rs =
     (case rs a of
        None \<Rightarrow> rs
      | Some sl \<Rightarrow>
          (case slot_cb sl of
             None \<Rightarrow> rs
           | Some cb \<Rightarrow> rs(a \<mapsto> sl\<lparr>slot_data := cb (slot_data sl) status info user_data\<rparr>)))"

definition ucp_worker_progress :: "'w ucx_lib \<Rightarrow> nat \<Rightarrow> 'w world \<Rightarrow> 'w world" where
  "ucp_worker_progress lib w st =
     (let (cs, n') = lib_worker_progress lib (native st) w
      in st\<lparr>native := n', requests := fold deliver cs (requests st),
             trace := trace st @ [Call_worker_progress w]\<rparr>)"

text \<open>Modelled from the spec: a native operation that returns a request pointer has
  allocated the request. Its memory holds what the "per-request extra-state initializer"
  registered with the context leaves there, and the callback of the parameter block is
  the one the library will invoke on completion.\<close>

definition alloc_request ::
  "'w ucx_lib \<Rightarrow> ucp_request_param \<Rightarrow> ucs_status_ptr \<Rightarrow> 'w world \<Rightarrow> 'w world"
where
  "alloc_request lib params p st =
     (case p of
        ReqPtr a \<Rightarrow>
          st\<lparr>requests := (requests st)(a \<mapsto>
            \<lparr>slot_data =
               (case registered st of
                  None \<Rightarrow> lib_request_raw lib (native st) a
                | Some cp \<Rightarrow>
                    if UCP_PARAM_FIELD_REQUEST_INIT \<in> field_mask cp
                    then request_init cp (lib_request_raw lib (native st) a)
                    else lib_request_raw lib (native st) a),
             slot_cb =
               (if UCP_OP_ATTR_FIELD_CALLBACK \<in> op_attr_mask params
                then Some (cb_recv params) else None)\<rparr>)\<rparr>
      | _ \<Rightarrow> st)"

definition ucp_tag_recv_nbx ::
  "'w ucx_lib \<Rightarrow> nat \<Rightarrow> nat \<Rightarrow> nat \<Rightarrow> 64 word \<Rightarrow> 64 word \<Rightarrow> ucp_request_param \<Rightarrow> 'w world
     \<Rightarrow> ucs_status_ptr \<times> 'w world"
where
  "ucp_tag_recv_nbx lib w buffer count tag tag_mask params st =
     (let (p, n') = lib_tag_recv_nbx lib (native st) w buffer count tag tag_mask params
      in (p, alloc_request lib params p
               (st\<lparr>native := n',
                   trace := trace st @ [Call_tag_recv_nbx w buffer count tag tag_mask params]\<rparr>)))"

definition ucp_tag_send_nbx ::
  "'w ucx_lib \<Rightarrow> nat \<Rightarrow> nat \<Rightarrow> nat \<Rightarrow> 64 word \<Rightarrow> ucp_request_param \<Rightarrow> 'w world
     \<Rightarrow> ucs_status_ptr \<times> 'w world"
where
  "ucp_tag_send_nbx lib ep buffer count tag params st =
     (let (p, n') = lib_tag_send_nbx lib (native st) ep buffer count tag params
      in (p, alloc_request lib params p
               (st\<lparr>native := n',
                   trace := trace st @ [Call_tag_send_nbx ep buffer count tag params]\<rparr>)))"

definition ucp_ep_close_nb ::
  "'w ucx_lib \<Rightarrow> nat \<Rightarrow> ucp_ep_close_mode \<Rightarrow> 'w world \<Rightarrow> ucs_status_ptr \<times> 'w world"
where
  "ucp_ep_close_nb lib ep mode st =
     (let (p, n') = lib_ep_close_nb lib (native st) ep mode
      in (p, st\<lparr>native := n', trace := trace st @ [Call_ep_close_nb ep mode]\<rparr>))"

definition ucp_request_check_status ::
  "'w ucx_lib \<Rightarrow> ucs_status_ptr \<Rightarrow> 'w world \<Rightarrow> ucs_status \<times> 'w world"
where
  "ucp_request_check_status lib request st =
     (lib_request_check_status lib (native st) request,
      st\<lparr>trace := trace st @ [Call_request_check_status request]\<rparr>)"

text \<open>Freeing a request returns its memory to the library.\<close>

definition ucp_request_free :: "'w ucx_lib \<Rightarrow> ucs_status_ptr \<Rightarrow> 'w world \<Rightarrow> 'w world" where
  "ucp_request_free lib request st =
     st\<lparr>native := lib_request_free lib (native st) request,
        requests := (case request of ReqPtr a \<Rightarrow> (requests st)(a := None) | _ \<Rightarrow> requests st),
        trace := trace st @ [Call_request_free request]\<rparr>"

definition ucp_worker_get_address ::
  "'w ucx_lib \<Rightarrow> nat \<Rightarrow> 'w world \<Rightarrow> ucs_status \<times> 8 word list \<times> 'w world"
where
  "ucp_worker_get_address lib w st =
     (let (s, local_addr, n') = lib_worker_get_address lib (native st) w
      in (s, local_addr, st\<lparr>native := n', trace := trace st @ [Call_worker_get_address w]\<rparr>))"

definition ucp_worker_release_address :: "'w ucx_lib \<Rightarrow> nat \<Rightarrow> 'w world \<Rightarrow> 'w world" where
  "ucp_worker_release_address lib w st =
     st\<lparr>native := lib_worker_release_address lib (native st) w,
        trace := trace st @ [Call_worker_release_address w]\<rparr>"

definition ucp_config_read :: "'w ucx_lib \<Rightarrow> 'w world \<Rightarrow> ucs_status \<times> 'w world" where
  "ucp_config_read lib st =
     (let (s, n') = lib_config_read lib (native st)
      in (s, st\<lparr>native := n', trace := trace st @ [Call_config_read]\<rparr>))"

text \<open>A successful \<open>ucp_init\<close> registers the parameter block with the context.\<close>

definition ucp_init :: "'w ucx_lib \<Rightarrow> ucp_params \<Rightarrow> 'w world \<Rightarrow> ucs_status \<times> nat \<times> 'w world" where
  "ucp_init lib params st =
     (let (s, context, n') = lib_init lib (native st) params
      in (s, context,
          st\<lparr>native := n',
             registered := (if s = UCS_OK then Some params else registered st),
             trace := trace st @ [Call_init params]\<rparr>))"

definition ucp_config_release :: "'w ucx_lib \<Rightarrow> 'w world \<Rightarrow> 'w world" where
  "ucp_config_release lib st =
     st\<lparr>native := lib_config_release lib (native st), trace := trace st @ [Call_config_release]\<rparr>"

definition ucp_cleanup :: "'w ucx_lib \<Rightarrow> nat \<Rightarrow> 'w world \<Rightarrow> 'w world" where
  "ucp_cleanup lib c st =
     st\<lparr>native := lib_cleanup lib (native st) c, trace := trace st @ [Call_cleanup c]\<rparr>"

definition TORCH_WARN :: "string \<Rightarrow> 'w world \<Rightarrow> 'w world" where
  "TORCH_WARN msg st = st\<lparr>trace := trace st @ [Call_TORCH_WARN msg]\<rparr>"

section \<open>The classes of UCXUtils.hpp\<close>

datatype error = c10_Error string

text \<open>Modelled from the spec: the macro \<open>TORCH_UCX_CHECK(st, msg)\<close> of UCXUtils.hpp.
  Construction and the address query "fail with a transport error" when "the native
  library reports a non-success status"; \<open>None\<close> is passing the check.\<close>

definition TORCH_UCX_CHECK :: "ucs_status \<Rightarrow> string \<Rightarrow> error option" where
  "TORCH_UCX_CHECK st msg = (if st = UCS_OK then None else Some (c10_Error msg))"

text \<open>Modelled from the spec: the class \<open>UCPRequest\<close> of UCXUtils.hpp, "a completion
  flag" and an "optional opaque native request handle (absent when the operation
  completed synchronously at submission time)". The handle is the pointer the
  constructor is given; the null pointer is the absent handle.\<close>

datatype UCPRequest = UCPRequest (data: ucs_status_ptr)

text \<open>Modelled from the spec: reading the completion flag of a \<open>UCPRequest\<close>. A request
  with no native handle reads as complete; otherwise the flag is read from the request
  memory the handle points to. \<open>None\<close> is a read through a handle that does not point to
  a live request object.\<close>

definition is_completed :: "'w world \<Rightarrow> UCPRequest \<Rightarrow> bool option" where
  "is_completed st r =
     (case data r of
        NullPtr \<Rightarrow> Some True
      | ReqPtr a \<Rightarrow> map_option (\<lambda>sl. completed (slot_data sl)) (requests st a)
      | ErrPtr e \<Rightarrow> None)"

text \<open>Modelled from the spec: the class \<open>UCPWorker\<close> of UCXUtils.hpp holds the native
  worker handle; \<open>progress()\<close> "drives the native event/completion loop one step".\<close>

datatype UCPWorker = UCPWorker (worker: nat)

definition progress :: "'w ucx_lib \<Rightarrow> UCPWorker \<Rightarrow> 'w world \<Rightarrow> 'w world" where
  "progress lib this st = ucp_worker_progress lib (worker this) st"

text \<open>Modelled from the spec: the class \<open>UCPEndpoint\<close> of UCXUtils.hpp holds the native
  connection handle and a shared reference to the worker it is bound to.\<close>

record UCPEndpoint =
  ep_worker :: UCPWorker
  endpoint :: nat

datatype UCPContext = UCPContext (context_h: nat)

section \<open>UCXUtils.cpp\<close>

subsection \<open>The context\<close>

text \<open>\<open>sizeof(UCPRequest::Data)\<close>: a structure of one \<open>bool\<close>.\<close>

definition sizeof_Data :: nat where
  "sizeof_Data = 1"

text \<open>\<open>UCPContext::UCPContext()\<close>. The configuration is released before the status of
  \<open>ucp_init\<close> is checked. The result is the error thrown, or the constructed object.\<close>

definition UCPContext_ctor :: "'w ucx_lib \<Rightarrow> 'w world \<Rightarrow> (error + UCPContext) \<times> 'w world" where
  "UCPContext_ctor lib st0 =
     (let (st, st1) = ucp_config_read lib st0
      in case TORCH_UCX_CHECK st ''Failed to read UCP config.'' of
           Some e \<Rightarrow> (Inl e, st1)
         | None \<Rightarrow>
             (let params =
                    \<lparr>field_mask = {UCP_PARAM_FIELD_FEATURES, UCP_PARAM_FIELD_REQUEST_SIZE,
                                   UCP_PARAM_FIELD_REQUEST_INIT, UCP_PARAM_FIELD_REQUEST_CLEANUP},
                     request_size = sizeof_Data,
                     features = {UCP_FEATURE_TAG},
                     request_init = (\<lambda>r. r\<lparr>completed := False\<rparr>),
                     request_cleanup = (\<lambda>r. r)\<rparr>;
                  (st', context, st2) = ucp_init lib params st1;
                  st3 = ucp_config_release lib st2
              in case TORCH_UCX_CHECK st' ''Failed to init UCP context.'' of
                   Some e \<Rightarrow> (Inl e, st3)
                 | None \<Rightarrow> (Inr (UCPContext context), st3)))"

text \<open>\<open>UCPContext::~UCPContext()\<close>.\<close>

definition UCPContext_dtor :: "'w ucx_lib \<Rightarrow> UCPContext \<Rightarrow> 'w world \<Rightarrow> 'w world" where
  "UCPContext_dtor lib this st0 = ucp_cleanup lib (context_h this) st0"

subsection \<open>The worker\<close>

text \<open>\<open>UCPWorker::address()\<close>. The library hands out a buffer of \<open>local_addr_len\<close> bytes;
  the vector is built from exactly these bytes.\<close>

definition address :: "'w ucx_lib \<Rightarrow> UCPWorker \<Rightarrow> 'w world \<Rightarrow> (error + 8 word list) \<times> 'w world" where
  "address lib this st0 =
     (let (st, local_addr, st1) = ucp_worker_get_address lib (worker this) st0
      in case TORCH_UCX_CHECK st ''Failed to get worker address.'' of
           Some e \<Rightarrow> (Inl e, st1)
         | None \<Rightarrow>
             (let addr = local_addr;
                  st2 = ucp_worker_release_address lib (worker this) st1
              in (Inr addr, st2)))"

subsection \<open>Closing an endpoint\<close>

text \<open>The \<open>do ... while (st != UCS_OK)\<close> loop of \<open>UCPEndpoint::~UCPEndpoint()\<close>. The loop has
  no bound, so it is a partial function: \<open>None\<close> is the loop that never exits.\<close>

partial_function (option) close_loop ::
  "'w ucx_lib \<Rightarrow> UCPWorker \<Rightarrow> ucs_status_ptr \<Rightarrow> 'w world \<Rightarrow> 'w world option"
where
  "close_loop lib w request st0 =
     (let st1 = progress lib w st0;
          r = ucp_request_check_status lib request st1
      in if fst r \<noteq> UCS_OK then close_loop lib w request (snd r) else Some (snd r))"

declare close_loop.simps [code]

text \<open>The text of the warning in the destructor: the message and the library's name of
  the status the close request carries.\<close>

definition close_warning :: "'w ucx_lib \<Rightarrow> ucs_status_ptr \<Rightarrow> string" where
  "close_warning lib request =
     ''Will leak endpoint because it fails to close. Error: '' @
     lib_status_string lib (UCS_PTR_STATUS request)"

text \<open>\<open>UCPEndpoint::~UCPEndpoint()\<close>.\<close>

definition UCPEndpoint_dtor :: "'w ucx_lib \<Rightarrow> UCPEndpoint \<Rightarrow> 'w world \<Rightarrow> 'w world option" where
  "UCPEndpoint_dtor lib this st0 =
     (let (request, st1) = ucp_ep_close_nb lib (endpoint this) UCP_EP_CLOSE_MODE_FLUSH st0;
          st2 = (if UCS_PTR_IS_ERR request
                 then TORCH_WARN (close_warning lib request) st1
                 else st1)
      in if UCS_PTR_IS_PTR request
         then (case close_loop lib (ep_worker this) request st2 of
                 None \<Rightarrow> None
               | Some st3 \<Rightarrow> Some (ucp_request_free lib request st3))
         else Some st2)"

subsection \<open>Submitting operations\<close>

fun getUCSMemoryType :: "DeviceType \<Rightarrow> ucs_memory_type" where
  "getUCSMemoryType kCPU = UCS_MEMORY_TYPE_HOST"
| "getUCSMemoryType kCUDA = UCS_MEMORY_TYPE_CUDA"
| "getUCSMemoryType kHIP = UCS_MEMORY_TYPE_ROCM"
| "getUCSMemoryType _ = UCS_MEMORY_TYPE_UNKNOWN"

text \<open>The parameter block \<open>submit_p2p_request\<close> builds before it invokes the native
  operation (the assignments to \<open>params\<close>): the attribute mask, the contiguous datatype
  of \<open>size\<close> bytes, the memory type of the device, and the completion callback, which
  writes \<open>true\<close> to the completion flag and reads none of its other arguments.\<close>

definition p2p_params :: "nat \<Rightarrow> DeviceType \<Rightarrow> ucp_request_param" where
  "p2p_params sz device =
     \<lparr>op_attr_mask = {UCP_OP_ATTR_FIELD_CALLBACK, UCP_OP_ATTR_FIELD_DATATYPE,
                      UCP_OP_ATTR_FIELD_MEMORY_TYPE},
      param_datatype = ucp_dt_make_contig sz,
      memory_type = getUCSMemoryType device,
      cb_recv = (\<lambda>r status info user_data. r\<lparr>completed := True\<rparr>)\<rparr>"

text \<open>\<open>UCPWorker::submit_p2p_request\<close>. \<open>work\<close> is the native operation, a function of the
  parameter block; the result is the \<open>UCPRequest\<close> constructed from the null pointer or
  from the pointer \<open>work\<close> returned.\<close>

definition submit_p2p_request ::
  "'w ucx_lib \<Rightarrow> UCPWorker \<Rightarrow> nat \<Rightarrow> DeviceType \<Rightarrow>
     (ucp_request_param \<Rightarrow> 'w world \<Rightarrow> ucs_status_ptr \<times> 'w world) \<Rightarrow> 'w world \<Rightarrow> UCPRequest \<times> 'w world"
where
  "submit_p2p_request lib this sz device work st0 =
     (let params = p2p_params sz device;
          (request, st1) = work params st0
      in if UCS_PTR_STATUS request = UCS_OK
         then (UCPRequest NullPtr, st1)
         else (UCPRequest request, progress lib this st1))"

text \<open>\<open>UCPWorker::recv_with_tag\<close>. The \<open>int\<close> tag is converted to the 64-bit tag type; the
  fifth argument of \<open>ucp_tag_recv_nbx\<close>, the tag mask, is the constant 0.\<close>

definition recv_with_tag ::
  "'w ucx_lib \<Rightarrow> UCPWorker \<Rightarrow> nat \<Rightarrow> nat \<Rightarrow> 32 word \<Rightarrow> DeviceType \<Rightarrow> 'w world \<Rightarrow> UCPRequest \<times> 'w world"
where
  "recv_with_tag lib this buf sz tag device st0 =
     submit_p2p_request lib this sz device
       (\<lambda>params. ucp_tag_recv_nbx lib (worker this) buf 1 (scast tag) 0 params) st0"

text \<open>\<open>UCPEndpoint::send_with_tag\<close>.\<close>

definition send_with_tag ::
  "'w ucx_lib \<Rightarrow> UCPEndpoint \<Rightarrow> nat \<Rightarrow> nat \<Rightarrow> 32 word \<Rightarrow> DeviceType \<Rightarrow> 'w world \<Rightarrow> UCPRequest \<times> 'w world"
where
  "send_with_tag lib this buf sz tag device st0 =
     submit_p2p_request lib (ep_worker this) sz device
       (\<lambda>params. ucp_tag_send_nbx lib (endpoint this) buf 1 (scast tag) params) st0"

text \<open>\<open>UCPEndpoint::recv_with_tag\<close>.\<close>

definition ep_recv_with_tag ::
  "'w ucx_lib \<Rightarrow> UCPEndpoint \<Rightarrow> nat \<Rightarrow> nat \<Rightarrow> 32 word \<Rightarrow> DeviceType \<Rightarrow> 'w world \<Rightarrow> UCPRequest \<times> 'w world"
where
  "ep_recv_with_tag lib this buf sz tag device st0 =
     submit_p2p_request lib (ep_worker this) sz device
       (\<lambda>params. ucp_tag_recv_nbx lib (worker (ep_worker this)) buf 1 (scast tag) 0 params) st0"

section \<open>Observing the close loop\<close>

text \<open>One iteration of the loop in the destructor: a progress step on the owning worker,
  then a status check of the close request.\<close>

definition close_iter ::
  "'w ucx_lib \<Rightarrow> UCPWorker \<Rightarrow> ucs_status_ptr \<Rightarrow> 'w world \<Rightarrow> ucs_status \<times> 'w world"
where
  "close_iter lib w request st = ucp_request_check_status lib request (progress lib w st)"

text \<open>The state after \<open>n\<close> iterations, and the status the check of iteration \<open>n + 1\<close>
  reports.\<close>

primrec loop_state ::
  "'w ucx_lib \<Rightarrow> UCPWorker \<Rightarrow> ucs_status_ptr \<Rightarrow> nat \<Rightarrow> 'w world \<Rightarrow> 'w world"
where
  "loop_state lib w request 0 st = st"
| "loop_state lib w request (Suc n) st =
     loop_state lib w request n (snd (close_iter lib w request st))"

definition loop_status ::
  "'w ucx_lib \<Rightarrow> UCPWorker \<Rightarrow> ucs_status_ptr \<Rightarrow> nat \<Rightarrow> 'w world \<Rightarrow> ucs_status"
where
  "loop_status lib w request n st = fst (close_iter lib w request (loop_state lib w request n st))"

section \<open>Example libraries\<close>

text \<open>Concrete native libraries, to run the code on. Their state is the number of
  progress calls made so far. \<open>idle_lib\<close> completes every operation at once; the others
  differ from it in the entry points named.\<close>

definition idle_lib :: "nat ucx_lib" where
  "idle_lib =
     \<lparr>lib_config_read = (\<lambda>n. (UCS_OK, n)),
      lib_init = (\<lambda>n params. (UCS_OK, 1, n)),
      lib_config_release = (\<lambda>n. n),
      lib_cleanup = (\<lambda>n c. n),
      lib_worker_get_address = (\<lambda>n w. (UCS_OK, [0x75, 0x63, 0x78], n)),
      lib_worker_release_address = (\<lambda>n w. n),
      lib_ep_close_nb = (\<lambda>n ep mode. (NullPtr, n)),
      lib_worker_progress = (\<lambda>n w. ([], Suc n)),
      lib_request_check_status = (\<lambda>n r. UCS_OK),
      lib_request_free = (\<lambda>n r. n),
      lib_tag_recv_nbx = (\<lambda>n w buffer count tag tag_mask params. (NullPtr, n)),
      lib_tag_send_nbx = (\<lambda>n ep buffer count tag params. (NullPtr, n)),
      lib_request_raw = (\<lambda>n a. \<lparr>completed = True\<rparr>),
      lib_status_string = (\<lambda>s. case s of UCS_OK \<Rightarrow> ''Success''
                                 | UCS_INPROGRESS \<Rightarrow> ''Operation in progress''
                                 | UCS_ERR e \<Rightarrow> ''Failure'')\<rparr>"

definition world0 :: "nat world" where
  "world0 = \<lparr>native = 0, registered = None, requests = Map.empty, trace = []\<rparr>"

text \<open>Closing fails at once with error 3.\<close>

definition close_fails_lib :: "nat ucx_lib" where
  "close_fails_lib = idle_lib\<lparr>lib_ep_close_nb := (\<lambda>n ep mode. (ErrPtr 3, n))\<rparr>"

text \<open>Closing is pending (request 7) and reports OK from the second progress call on.\<close>

definition close_pending_lib :: "nat ucx_lib" where
  "close_pending_lib =
     idle_lib\<lparr>lib_ep_close_nb := (\<lambda>n ep mode. (ReqPtr 7, n)),
              lib_request_check_status := (\<lambda>n r. if n < 2 then UCS_INPROGRESS else UCS_OK)\<rparr>"

text \<open>Closing is pending (request 7), in progress during the first progress call and
  failed with error 5 from then on.\<close>

definition close_settles_in_error_lib :: "nat ucx_lib" where
  "close_settles_in_error_lib =
     idle_lib\<lparr>lib_ep_close_nb := (\<lambda>n ep mode. (ReqPtr 7, n)),
              lib_request_check_status := (\<lambda>n r. if n < 2 then UCS_INPROGRESS else UCS_ERR 5)\<rparr>"

definition endpoint0 :: UCPEndpoint where
  "endpoint0 = \<lparr>ep_worker = UCPWorker 0, endpoint = 4\<rparr>"

text \<open>The state after the context has been constructed on \<open>idle_lib\<close>.\<close>

definition world_ctx :: "nat world" where
  "world_ctx = snd (UCPContext_ctor idle_lib world0)"

text \<open>A receive is pending (request 0), and the first progress call delivers its
  completion with the status given.\<close>

definition recv_completes_lib :: "ucs_status \<Rightarrow> nat ucx_lib" where
  "recv_completes_lib status =
     idle_lib\<lparr>lib_tag_recv_nbx := (\<lambda>n w buffer count tag tag_mask params. (ReqPtr 0, n)),
              lib_worker_progress :=
                (\<lambda>n w. (if n = 0 then [(0, status, \<lparr>sender_tag = 7, info_length = 5\<rparr>, 0)] else [],
                        Suc n))\<rparr>"

text \<open>A receive is pending (request 0), and it is the third progress call that delivers
  its completion.\<close>

definition recv_slow_lib :: "nat ucx_lib" where
  "recv_slow_lib =
     idle_lib\<lparr>lib_tag_recv_nbx := (\<lambda>n w buffer count tag tag_mask params. (ReqPtr 0, n)),
              lib_worker_progress :=
                (\<lambda>n w. (if n = 2 then [(0, UCS_OK, \<lparr>sender_tag = 7, info_length = 5\<rparr>, 0)] else [],
                        Suc n))\<rparr>"

text \<open>A receive fails at submission with error 4.\<close>

definition recv_fails_lib :: "nat ucx_lib" where
  "recv_fails_lib =
     idle_lib\<lparr>lib_tag_recv_nbx := (\<lambda>n w buffer count tag tag_mask params. (ErrPtr 4, n))\<rparr>"

text \<open>A receive and a send are both pending (requests 0 and 1).\<close>

definition both_pending_lib :: "nat ucx_lib" where
  "both_pending_lib =
     idle_lib\<lparr>lib_tag_recv_nbx := (\<lambda>n w buffer count tag tag_mask params. (ReqPtr 0, n)),
              lib_tag_send_nbx := (\<lambda>n ep buffer count tag params. (ReqPtr 1, n))\<rparr>"

text \<open>The address query fails with error 2.\<close>

definition address_fails_lib :: "nat ucx_lib" where
  "address_fails_lib = idle_lib\<lparr>lib_worker_get_address := (\<lambda>n w. (UCS_ERR 2, [], n))\<rparr>"

section \<open>Observing submissions\<close>

text \<open>The memory type annotation of the parameter block a traced native send or receive
  was called with.\<close>

fun call_memory_type :: "call \<Rightarrow> ucs_memory_type option" where
  "call_memory_type (Call_tag_recv_nbx w buffer count tag tag_mask params) = Some (memory_type params)"
| "call_memory_type (Call_tag_send_nbx ep buffer count tag params) = Some (memory_type params)"
| "call_memory_type _ = None"

text \<open>The first call an operation makes when it runs from \<open>st0\<close> to \<open>st'\<close>.\<close>

definition first_call :: "'w world \<Rightarrow> 'w world \<Rightarrow> call" where
  "first_call st0 st' = trace st' ! length (trace st0)"

section \<open>The close loop\<close>

lemma close_loop_unfold:
  "close_loop lib w request st =
     (if fst (close_iter lib w request st) \<noteq> UCS_OK
      then close_loop lib w request (snd (close_iter lib w request st))
      else Some (snd (close_iter lib w request st)))"
  by (subst close_loop.simps) (simp add: close_iter_def Let_def)

lemma close_loop_first_ok:
  "\<forall>k<n. loop_status lib w request k st \<noteq> UCS_OK \<Longrightarrow>
   loop_status lib w request n st = UCS_OK \<Longrightarrow>
   close_loop lib w request st = Some (loop_state lib w request (Suc n) st)"
proof (induction n arbitrary: st)
  case 0
  then show ?case
    by (subst close_loop_unfold) (simp add: loop_status_def)
next
  case (Suc n)
  let ?st' = "snd (close_iter lib w request st)"
  from Suc.prems(1) have first: "fst (close_iter lib w request st) \<noteq> UCS_OK"
    by (auto simp: loop_status_def dest: spec[of _ 0])
  have "\<forall>k<n. loop_status lib w request k ?st' \<noteq> UCS_OK"
  proof (intro allI impI)
    fix k assume "k < n"
    then have "Suc k < Suc n" by simp
    with Suc.prems(1) have "loop_status lib w request (Suc k) st \<noteq> UCS_OK" by blast
    then show "loop_status lib w request k ?st' \<noteq> UCS_OK" by (simp add: loop_status_def)
  qed
  moreover from Suc.prems(2) have "loop_status lib w request n ?st' = UCS_OK"
    by (simp add: loop_status_def)
  ultimately have "close_loop lib w request ?st' = Some (loop_state lib w request (Suc n) ?st')"
    by (rule Suc.IH)
  with first show ?case
    by (subst close_loop_unfold) simp
qed

lemma close_loop_returns_ok:
  assumes "close_loop lib w request st = Some st'"
  shows "\<exists>n. loop_status lib w request n st = UCS_OK"
proof (rule close_loop.raw_induct
    [where P = "\<lambda>lib w request st st'. \<exists>n. loop_status lib w request n st = UCS_OK", OF _ assms])
  fix loop :: "'a ucx_lib \<Rightarrow> UCPWorker \<Rightarrow> ucs_status_ptr \<Rightarrow> 'a world \<Rightarrow> 'a world option"
  fix lib w request st st'
  assume IH: "\<And>lib w request st st'. loop lib w request st = Some st' \<Longrightarrow>
                \<exists>n. loop_status lib w request n st = UCS_OK"
  assume body: "(let st1 = progress lib w st; r = ucp_request_check_status lib request st1
                 in if fst r \<noteq> UCS_OK then loop lib w request (snd r) else Some (snd r)) = Some st'"
  show "\<exists>n. loop_status lib w request n st = UCS_OK"
  proof (cases "fst (close_iter lib w request st) = UCS_OK")
    case True
    then have "loop_status lib w request 0 st = UCS_OK"
      by (simp add: loop_status_def)
    then show ?thesis ..
  next
    case False
    with body have "loop lib w request (snd (close_iter lib w request st)) = Some st'"
      by (simp add: close_iter_def Let_def)
    then obtain n where "loop_status lib w request n (snd (close_iter lib w request st)) = UCS_OK"
      using IH by blast
    then have "loop_status lib w request (Suc n) st = UCS_OK"
      by (simp add: loop_status_def)
    then show ?thesis ..
  qed
qed

lemma ex_least_ok:
  "loop_status lib w request n st = UCS_OK \<Longrightarrow>
   \<exists>m. (\<forall>k<m. loop_status lib w request k st \<noteq> UCS_OK) \<and> loop_status lib w request m st = UCS_OK"
proof -
  assume ok: "loop_status lib w request n st = UCS_OK"
  let ?m = "LEAST m. loop_status lib w request m st = UCS_OK"
  from ok have "loop_status lib w request ?m st = UCS_OK" by (rule LeastI)
  moreover have "\<forall>k<?m. loop_status lib w request k st \<noteq> UCS_OK"
    using not_less_Least by blast
  ultimately show ?thesis by blast
qed

lemma close_loop_terminates_iff:
  "(close_loop lib w request st \<noteq> None) = (\<exists>n. loop_status lib w request n st = UCS_OK)"
proof
  assume "close_loop lib w request st \<noteq> None"
  then obtain st' where "close_loop lib w request st = Some st'" by blast
  then show "\<exists>n. loop_status lib w request n st = UCS_OK" by (rule close_loop_returns_ok)
next
  assume "\<exists>n. loop_status lib w request n st = UCS_OK"
  then obtain n where "loop_status lib w request n st = UCS_OK" ..
  from ex_least_ok[OF this] obtain m where
    "\<forall>k<m. loop_status lib w request k st \<noteq> UCS_OK" "loop_status lib w request m st = UCS_OK"
    by blast
  then have "close_loop lib w request st = Some (loop_state lib w request (Suc m) st)"
    by (rule close_loop_first_ok)
  then show "close_loop lib w request st \<noteq> None" by simp
qed

lemma trace_close_iter:
  "trace (snd (close_iter lib w request st)) =
     trace st @ [Call_worker_progress (worker w), Call_request_check_status request]"
  by (simp add: close_iter_def ucp_request_check_status_def progress_def ucp_worker_progress_def
      split: prod.splits)

lemma trace_loop_state:
  "trace (loop_state lib w request n st) =
     trace st @ concat (replicate n [Call_worker_progress (worker w), Call_request_check_status request])"
  by (induction n arbitrary: st) (simp_all add: trace_close_iter)

text \<open>In the example libraries a progress call adds one to the library state and
  delivers nothing, so the status of iteration \<open>k + 1\<close> is read at state \<open>k + 1\<close>.\<close>

lemma native_close_iter:
  "lib_worker_progress lib = (\<lambda>n w. ([], Suc n)) \<Longrightarrow>
   native (snd (close_iter lib w request st)) = Suc (native st)"
  by (simp add: close_iter_def ucp_request_check_status_def progress_def ucp_worker_progress_def)

lemma native_loop_state:
  "lib_worker_progress lib = (\<lambda>n w. ([], Suc n)) \<Longrightarrow>
   native (loop_state lib w request k st) = native st + k"
  by (induction k arbitrary: st) (simp_all add: native_close_iter)

lemma loop_status_counting:
  "lib_worker_progress lib = (\<lambda>n w. ([], Suc n)) \<Longrightarrow>
   loop_status lib w request k st = lib_request_check_status lib (Suc (native st + k)) request"
  by (simp add: loop_status_def close_iter_def ucp_request_check_status_def progress_def
      ucp_worker_progress_def native_loop_state)

lemma settles_status:
  "loop_status close_settles_in_error_lib (UCPWorker 0) (ReqPtr 7) k
     (world0\<lparr>trace := [Call_ep_close_nb 4 UCP_EP_CLOSE_MODE_FLUSH]\<rparr>) =
   (if k = 0 then UCS_INPROGRESS else UCS_ERR 5)"
  by (simp add: loop_status_counting close_settles_in_error_lib_def idle_lib_def world0_def)

lemma pending_status:
  "loop_status close_pending_lib (UCPWorker 0) (ReqPtr 7) k
     (world0\<lparr>trace := [Call_ep_close_nb 4 UCP_EP_CLOSE_MODE_FLUSH]\<rparr>) =
   (if k = 0 then UCS_INPROGRESS else UCS_OK)"
  by (simp add: loop_status_counting close_pending_lib_def idle_lib_def world0_def)

section \<open>Delivery of completions\<close>

lemma cb_p2p: "cb_recv (p2p_params sz device) = (\<lambda>r status info user_data. r\<lparr>completed := True\<rparr>)"
  by (simp add: p2p_params_def)

lemma deliver_slot:
  assumes "rs a = Some sl" and "slot_cb sl = Some (\<lambda>r status info user_data. r\<lparr>completed := True\<rparr>)"
  shows "\<exists>sl'. deliver c rs a = Some sl' \<and> slot_cb sl' = slot_cb sl \<and>
           completed (slot_data sl') = (completed (slot_data sl) \<or> a = fst c)"
proof (cases c)
  case (fields b status info user_data)
  show ?thesis
  proof (cases "b = a")
    case True
    with assms fields show ?thesis by simp
  next
    case False
    with assms fields show ?thesis
      by (auto split: option.splits)
  qed
qed

lemma fold_deliver_slot:
  assumes "rs a = Some sl" and "slot_cb sl = Some (\<lambda>r status info user_data. r\<lparr>completed := True\<rparr>)"
  shows "\<exists>sl'. fold deliver cs rs a = Some sl' \<and> slot_cb sl' = slot_cb sl \<and>
           completed (slot_data sl') = (completed (slot_data sl) \<or> a \<in> fst ` set cs)"
  using assms
proof (induction cs arbitrary: rs sl)
  case Nil
  then show ?case by simp
next
  case (Cons c cs)
  from deliver_slot[of rs a sl c, OF Cons.prems] obtain sl1 where
    s1: "deliver c rs a = Some sl1" "slot_cb sl1 = slot_cb sl"
      "completed (slot_data sl1) = (completed (slot_data sl) \<or> a = fst c)"
    by blast
  from s1(2) Cons.prems(2)
  have "slot_cb sl1 = Some (\<lambda>r status info user_data. r\<lparr>completed := True\<rparr>)" by simp
  from Cons.IH[of "deliver c rs" sl1, OF s1(1) this] obtain sl' where
    "fold deliver cs (deliver c rs) a = Some sl'" "slot_cb sl' = slot_cb sl1"
    "completed (slot_data sl') = (completed (slot_data sl1) \<or> a \<in> fst ` set cs)"
    by blast
  with s1 show ?case by auto
qed

lemma progress_slot:
  assumes "requests st a = Some sl" and "slot_cb sl = Some (cb_recv (p2p_params sz device))"
  shows "\<exists>sl'. requests (progress lib w st) a = Some sl' \<and> slot_cb sl' = slot_cb sl \<and>
           completed (slot_data sl') =
             (completed (slot_data sl) \<or>
              a \<in> fst ` set (fst (lib_worker_progress lib (native st) (worker w))))"
proof -
  from assms(2) have cb: "slot_cb sl = Some (\<lambda>r status info user_data. r\<lparr>completed := True\<rparr>)"
    by (simp add: cb_p2p)
  have "requests (progress lib w st) =
          fold deliver (fst (lib_worker_progress lib (native st) (worker w))) (requests st)"
    by (simp add: progress_def ucp_worker_progress_def split: prod.splits)
  with fold_deliver_slot[of "requests st" a sl, OF assms(1) cb] show ?thesis by simp
qed

lemma trace_progress: "trace (progress lib w st) = trace st @ [Call_worker_progress (worker w)]"
  by (simp add: progress_def ucp_worker_progress_def split: prod.splits)

lemma fold_progress_slot:
  assumes "requests s a = Some sl" and "slot_cb sl = Some (cb_recv (p2p_params sz device))"
  shows "\<exists>sl'. requests (fold (progress lib) ws s) a = Some sl' \<and> slot_cb sl' = slot_cb sl \<and>
           (completed (slot_data sl) \<longrightarrow> completed (slot_data sl'))"
  using assms
proof (induction ws arbitrary: s sl)
  case Nil
  then show ?case by simp
next
  case (Cons w ws)
  from progress_slot[of s a sl sz device lib w, OF Cons.prems] obtain sl1 where
    s1: "requests (progress lib w s) a = Some sl1" "slot_cb sl1 = slot_cb sl"
      "completed (slot_data sl) \<longrightarrow> completed (slot_data sl1)"
    by blast
  from s1(2) Cons.prems(2) have "slot_cb sl1 = Some (cb_recv (p2p_params sz device))" by simp
  from Cons.IH[of "progress lib w s" sl1, OF s1(1) this] s1 show ?case by auto
qed

lemma ctor_registers:
  assumes "UCPContext_ctor lib st0 = (Inr c, st)"
  shows "\<exists>cp. registered st = Some cp \<and> UCP_PARAM_FIELD_REQUEST_INIT \<in> field_mask cp \<and>
           request_init cp = (\<lambda>r. r\<lparr>completed := False\<rparr>)"
  using assms
  by (auto simp: UCPContext_ctor_def ucp_config_read_def ucp_init_def ucp_config_release_def
      TORCH_UCX_CHECK_def Let_def split: prod.splits if_splits)

section \<open>Traces of submissions\<close>

lemma trace_tag_recv:
  "trace (snd (ucp_tag_recv_nbx lib w buf count tag tag_mask params st)) =
     trace st @ [Call_tag_recv_nbx w buf count tag tag_mask params]"
  by (simp add: ucp_tag_recv_nbx_def alloc_request_def split: prod.splits ucs_status_ptr.splits)

lemma trace_tag_send:
  "trace (snd (ucp_tag_send_nbx lib ep buf count tag params st)) =
     trace st @ [Call_tag_send_nbx ep buf count tag params]"
  by (simp add: ucp_tag_send_nbx_def alloc_request_def split: prod.splits ucs_status_ptr.splits)

lemma trace_submit:
  "\<exists>rest. trace (snd (submit_p2p_request lib this sz device work st0)) =
     trace (snd (work (p2p_params sz device) st0)) @ rest"
  by (simp add: submit_p2p_request_def Let_def trace_progress split: prod.splits)

lemma first_call_append: "trace st' = (trace st0 @ [c]) @ rest \<Longrightarrow> first_call st0 st' = c"
  by (simp add: first_call_def)

lemma first_call_recv:
  "first_call st0 (snd (recv_with_tag lib w buf sz tag device st0)) =
     Call_tag_recv_nbx (worker w) buf 1 (scast tag) 0 (p2p_params sz device)"
proof -
  from trace_submit[of lib w sz device
      "\<lambda>params. ucp_tag_recv_nbx lib (worker w) buf 1 (scast tag) 0 params" st0]
  obtain rest where "trace (snd (recv_with_tag lib w buf sz tag device st0)) =
      (trace st0 @ [Call_tag_recv_nbx (worker w) buf 1 (scast tag) 0 (p2p_params sz device)]) @ rest"
    by (auto simp: recv_with_tag_def trace_tag_recv)
  then show ?thesis by (rule first_call_append)
qed

lemma first_call_ep_recv:
  "first_call st0 (snd (ep_recv_with_tag lib ep buf sz tag device st0)) =
     Call_tag_recv_nbx (worker (ep_worker ep)) buf 1 (scast tag) 0 (p2p_params sz device)"
proof -
  from trace_submit[of lib "ep_worker ep" sz device
      "\<lambda>params. ucp_tag_recv_nbx lib (worker (ep_worker ep)) buf 1 (scast tag) 0 params" st0]
  obtain rest where "trace (snd (ep_recv_with_tag lib ep buf sz tag device st0)) =
      (trace st0 @ [Call_tag_recv_nbx (worker (ep_worker ep)) buf 1 (scast tag) 0
                      (p2p_params sz device)]) @ rest"
    by (auto simp: ep_recv_with_tag_def trace_tag_recv)
  then show ?thesis by (rule first_call_append)
qed

lemma first_call_send:
  "first_call st0 (snd (send_with_tag lib ep buf sz tag device st0)) =
     Call_tag_send_nbx (endpoint ep) buf 1 (scast tag) (p2p_params sz device)"
proof -
  from trace_submit[of lib "ep_worker ep" sz device
      "\<lambda>params. ucp_tag_send_nbx lib (endpoint ep) buf 1 (scast tag) params" st0]
  obtain rest where "trace (snd (send_with_tag lib ep buf sz tag device st0)) =
      (trace st0 @ [Call_tag_send_nbx (endpoint ep) buf 1 (scast tag) (p2p_params sz device)]) @ rest"
    by (auto simp: send_with_tag_def trace_tag_send)
  then show ?thesis by (rule first_call_append)
qed

section \<open>Evaluation on the example libraries\<close>

lemmas lib_defs = idle_lib_def recv_completes_lib_def recv_slow_lib_def recv_fails_lib_def
  both_pending_lib_def address_fails_lib_def
lemmas run_defs = submit_p2p_request_def recv_with_tag_def send_with_tag_def ep_recv_with_tag_def
  ucp_tag_recv_nbx_def ucp_tag_send_nbx_def alloc_request_def progress_def
  ucp_worker_progress_def is_completed_def p2p_params_def world_ctx_def world0_def
  UCPContext_ctor_def ucp_config_read_def ucp_init_def ucp_config_release_def
  TORCH_UCX_CHECK_def sizeof_Data_def Let_def

section \<open>Properties\<close>

text \<open>
  C1. The claim says that a receive submitted with tag \<open>T\<close> matches only a send that
  carries the same tag. The code posts every receive with the tag mask 0: here worker 1
  posts a receive for tag 7 and endpoint 4 a send of the same size with tag 8, and the
  trace shows the two native calls, the receive with tag 7 and mask 0, the send with
  tag 8. The mask is the fifth argument of the native receive; it selects the bits of
  the tag that take part in matching.
\<close>

theorem recv_with_tag_posts_zero_mask:
  "trace (snd (send_with_tag both_pending_lib endpoint0 200 5 8 kCPU
                 (snd (recv_with_tag both_pending_lib (UCPWorker 1) 100 5 7 kCPU world0)))) =
     [Call_tag_recv_nbx 1 100 1 7 0 (p2p_params 5 kCPU), Call_worker_progress 1,
      Call_tag_send_nbx 4 200 1 8 (p2p_params 5 kCPU), Call_worker_progress 0]"
  by (simp add: run_defs lib_defs endpoint0_def)

text \<open>
  C2, as amended. Let \<open>work\<close> return the pointer \<open>request\<close> in state \<open>st1\<close>.
  \<^item> If the status of \<open>request\<close> is \<open>UCS_OK\<close>, the result is a request with no native
    handle, in the state \<open>work\<close> left (no progress step), and it reads as complete.
  \<^item> If \<open>request\<close> points to a request object whose callback is the one of the parameter
    block, the result wraps that pointer, exactly one progress step has been driven, and
    the completion flag read through the result is the flag the object had when \<open>work\<close>
    returned, or true if that one progress step delivered the object's completion. So the
    flag is false only if the object started uncompleted and the step did not complete it.
\<close>

theorem submit_p2p_request_result:
  assumes work: "work (p2p_params sz device) st0 = (request, st1)"
  shows
    "(UCS_PTR_STATUS request = UCS_OK \<longrightarrow>
        submit_p2p_request lib this sz device work st0 = (UCPRequest NullPtr, st1) \<and>
        is_completed st1 (UCPRequest NullPtr) = Some True) \<and>
     (request = ReqPtr a \<and> requests st1 a = Some sl \<and>
      slot_cb sl = Some (cb_recv (p2p_params sz device)) \<longrightarrow>
        submit_p2p_request lib this sz device work st0 =
          (UCPRequest (ReqPtr a), progress lib this st1) \<and>
        trace (progress lib this st1) = trace st1 @ [Call_worker_progress (worker this)] \<and>
        is_completed (progress lib this st1) (UCPRequest (ReqPtr a)) =
          Some (completed (slot_data sl) \<or>
                a \<in> fst ` set (fst (lib_worker_progress lib (native st1) (worker this)))))"
proof -
  have ok: "submit_p2p_request lib this sz device work st0 = (UCPRequest NullPtr, st1)"
    if "UCS_PTR_STATUS request = UCS_OK"
    using that work by (simp add: submit_p2p_request_def)
  have null: "is_completed st1 (UCPRequest NullPtr) = Some True"
    by (simp add: is_completed_def)
  have pend: "submit_p2p_request lib this sz device work st0 =
          (UCPRequest (ReqPtr a), progress lib this st1)"
    if "request = ReqPtr a"
    using that work by (simp add: submit_p2p_request_def)
  have flag: "is_completed (progress lib this st1) (UCPRequest (ReqPtr a)) =
          Some (completed (slot_data sl) \<or>
                a \<in> fst ` set (fst (lib_worker_progress lib (native st1) (worker this))))"
    if "requests st1 a = Some sl" "slot_cb sl = Some (cb_recv (p2p_params sz device))"
    using progress_slot[of st1 a sl sz device lib this, OF that] by (auto simp: is_completed_def)
  from ok null pend flag trace_progress show ?thesis by blast
qed

theorem submit_p2p_request_result_witness:
  "submit_p2p_request idle_lib (UCPWorker 0) 5 kCPU
     (\<lambda>params. ucp_tag_recv_nbx idle_lib 0 100 1 7 0 params) world_ctx =
     (UCPRequest NullPtr, snd (ucp_tag_recv_nbx idle_lib 0 100 1 7 0 (p2p_params 5 kCPU) world_ctx)) \<and>
   fst (submit_p2p_request recv_slow_lib (UCPWorker 0) 5 kCPU
     (\<lambda>params. ucp_tag_recv_nbx recv_slow_lib 0 100 1 7 0 params) world_ctx) = UCPRequest (ReqPtr 0) \<and>
   is_completed
     (progress recv_slow_lib (UCPWorker 0)
        (snd (ucp_tag_recv_nbx recv_slow_lib 0 100 1 7 0 (p2p_params 5 kCPU) world_ctx)))
     (UCPRequest (ReqPtr 0)) = Some False"
proof -
  let ?work0 = "\<lambda>params. ucp_tag_recv_nbx idle_lib 0 100 1 7 0 params"
  let ?work1 = "\<lambda>params. ucp_tag_recv_nbx recv_slow_lib 0 100 1 7 0 params"
  let ?sl = "\<lparr>slot_data = \<lparr>completed = False\<rparr>, slot_cb = Some (cb_recv (p2p_params 5 kCPU))\<rparr>"
  have w0: "?work0 (p2p_params 5 kCPU) world_ctx =
      (NullPtr, snd (ucp_tag_recv_nbx idle_lib 0 100 1 7 0 (p2p_params 5 kCPU) world_ctx))"
    by (simp add: ucp_tag_recv_nbx_def alloc_request_def idle_lib_def)
  have w1: "?work1 (p2p_params 5 kCPU) world_ctx =
      (ReqPtr 0, snd (ucp_tag_recv_nbx recv_slow_lib 0 100 1 7 0 (p2p_params 5 kCPU) world_ctx))"
    by (simp add: ucp_tag_recv_nbx_def alloc_request_def recv_slow_lib_def idle_lib_def)
  have slot: "requests (snd (ucp_tag_recv_nbx recv_slow_lib 0 100 1 7 0 (p2p_params 5 kCPU) world_ctx)) 0
      = Some ?sl"
    by (simp add: run_defs lib_defs)
  have none: "fst (lib_worker_progress recv_slow_lib
        (native (snd (ucp_tag_recv_nbx recv_slow_lib 0 100 1 7 0 (p2p_params 5 kCPU) world_ctx)))
        (worker (UCPWorker 0))) = []"
    by (simp add: run_defs lib_defs)
  from submit_p2p_request_result[where work = ?work0 and sz = 5 and device = kCPU
      and ?st0.0 = world_ctx and lib = idle_lib and this = "UCPWorker 0" and a = 0 and sl = ?sl,
      OF w0]
  have a: "submit_p2p_request idle_lib (UCPWorker 0) 5 kCPU ?work0 world_ctx =
     (UCPRequest NullPtr, snd (ucp_tag_recv_nbx idle_lib 0 100 1 7 0 (p2p_params 5 kCPU) world_ctx))"
    by simp
  from submit_p2p_request_result[where work = ?work1 and sz = 5 and device = kCPU
      and ?st0.0 = world_ctx and lib = recv_slow_lib and this = "UCPWorker 0" and a = 0 and sl = ?sl,
      OF w1] slot none
  have b: "fst (submit_p2p_request recv_slow_lib (UCPWorker 0) 5 kCPU ?work1 world_ctx) =
        UCPRequest (ReqPtr 0) \<and>
      is_completed
       (progress recv_slow_lib (UCPWorker 0)
          (snd (ucp_tag_recv_nbx recv_slow_lib 0 100 1 7 0 (p2p_params 5 kCPU) world_ctx)))
       (UCPRequest (ReqPtr 0)) = Some False"
    by simp
  from a b show ?thesis by blast
qed

text \<open>
  C2, as stated, fails: with a library whose first progress call delivers the completion
  of the pending receive, the native operation does not return \<open>UCS_OK\<close>, and the request
  \<open>submit_p2p_request\<close> returns already reads as complete.
\<close>

theorem submit_p2p_request_flag_counterexample:
  "UCS_PTR_STATUS (fst (ucp_tag_recv_nbx (recv_completes_lib UCS_OK) 0 100 1 7 0
                          (p2p_params 5 kCPU) world_ctx)) \<noteq> UCS_OK \<and>
   is_completed
     (snd (submit_p2p_request (recv_completes_lib UCS_OK) (UCPWorker 0) 5 kCPU
             (\<lambda>params. ucp_tag_recv_nbx (recv_completes_lib UCS_OK) 0 100 1 7 0 params) world_ctx))
     (fst (submit_p2p_request (recv_completes_lib UCS_OK) (UCPWorker 0) 5 kCPU
             (\<lambda>params. ucp_tag_recv_nbx (recv_completes_lib UCS_OK) 0 100 1 7 0 params) world_ctx))
   = Some True"
  by (simp add: run_defs lib_defs)

text \<open>
  C3. The claim says that a hard error status returned at submission is classified as an
  error. The code has no such branch: when the native receive returns the error pointer
  for error 4, \<open>submit_p2p_request\<close> drives a progress step and returns a request that
  wraps the error pointer as its handle, as it does for a pending request. Reading the
  completion flag through that handle is a read through a pointer to no request object.
\<close>

theorem submit_p2p_request_error_pointer:
  "fst (submit_p2p_request recv_fails_lib (UCPWorker 0) 5 kCPU
          (\<lambda>params. ucp_tag_recv_nbx recv_fails_lib 0 100 1 7 0 params) world0)
     = UCPRequest (ErrPtr 4) \<and>
   trace (snd (submit_p2p_request recv_fails_lib (UCPWorker 0) 5 kCPU
          (\<lambda>params. ucp_tag_recv_nbx recv_fails_lib 0 100 1 7 0 params) world0))
     = [Call_tag_recv_nbx 0 100 1 7 0 (p2p_params 5 kCPU), Call_worker_progress 0] \<and>
   is_completed
     (snd (submit_p2p_request recv_fails_lib (UCPWorker 0) 5 kCPU
          (\<lambda>params. ucp_tag_recv_nbx recv_fails_lib 0 100 1 7 0 params) world0))
     (fst (submit_p2p_request recv_fails_lib (UCPWorker 0) 5 kCPU
          (\<lambda>params. ucp_tag_recv_nbx recv_fails_lib 0 100 1 7 0 params) world0))
     = None"
  by (simp add: run_defs lib_defs)

text \<open>
  C4. Let the non-blocking close return the pointer \<open>request\<close> in state \<open>st1\<close>.
  \<^item> If \<open>request\<close> is an error status, the destructor returns; it has made two calls, the
    close and one warning, and no progress step or status check.
  \<^item> If \<open>request\<close> is pending and the status check first reports completion (\<open>UCS_OK\<close>) in
    iteration \<open>n + 1\<close>, the destructor returns after exactly \<open>n + 1\<close> rounds of one
    progress step on the owning worker and one status check, followed by the release of
    the close request; it has warned nowhere.
  \<^item> If the close finished at once, the destructor returns with no further call.
\<close>

theorem endpoint_dtor_close_protocol:
  assumes close: "ucp_ep_close_nb lib (endpoint this) UCP_EP_CLOSE_MODE_FLUSH st0 = (request, st1)"
  shows
    "(UCS_PTR_IS_ERR request \<longrightarrow>
        UCPEndpoint_dtor lib this st0 =
          Some (TORCH_WARN (close_warning lib request) st1) \<and>
        trace (TORCH_WARN (close_warning lib request) st1) =
          trace st0 @
          [Call_ep_close_nb (endpoint this) UCP_EP_CLOSE_MODE_FLUSH,
           Call_TORCH_WARN (close_warning lib request)]) \<and>
     (UCS_PTR_IS_PTR request \<and>
      (\<forall>k<n. loop_status lib (ep_worker this) request k st1 \<noteq> UCS_OK) \<and>
      loop_status lib (ep_worker this) request n st1 = UCS_OK \<longrightarrow>
        UCPEndpoint_dtor lib this st0 =
          Some (ucp_request_free lib request (loop_state lib (ep_worker this) request (Suc n) st1)) \<and>
        trace (ucp_request_free lib request (loop_state lib (ep_worker this) request (Suc n) st1)) =
          trace st0 @
          [Call_ep_close_nb (endpoint this) UCP_EP_CLOSE_MODE_FLUSH] @
          concat (replicate (Suc n)
            [Call_worker_progress (worker (ep_worker this)), Call_request_check_status request]) @
          [Call_request_free request]) \<and>
     (request = NullPtr \<longrightarrow>
        UCPEndpoint_dtor lib this st0 = Some st1 \<and>
        trace st1 = trace st0 @ [Call_ep_close_nb (endpoint this) UCP_EP_CLOSE_MODE_FLUSH])"
proof -
  from close have tr1: "trace st1 = trace st0 @ [Call_ep_close_nb (endpoint this) UCP_EP_CLOSE_MODE_FLUSH]"
    by (auto simp: ucp_ep_close_nb_def split: prod.splits)
  have err: "UCPEndpoint_dtor lib this st0 =
          Some (TORCH_WARN (close_warning lib request) st1)"
    if "UCS_PTR_IS_ERR request"
  proof -
    from that have "\<not> UCS_PTR_IS_PTR request" by (cases request) simp_all
    with that close show ?thesis by (simp add: UCPEndpoint_dtor_def)
  qed
  have ptr: "UCPEndpoint_dtor lib this st0 =
          Some (ucp_request_free lib request (loop_state lib (ep_worker this) request (Suc n) st1))"
    if p: "UCS_PTR_IS_PTR request"
      and first: "\<forall>k<n. loop_status lib (ep_worker this) request k st1 \<noteq> UCS_OK"
      and ok: "loop_status lib (ep_worker this) request n st1 = UCS_OK"
  proof -
    from p have "\<not> UCS_PTR_IS_ERR request" by (cases request) simp_all
    moreover from first ok
    have "close_loop lib (ep_worker this) request st1 =
            Some (loop_state lib (ep_worker this) request (Suc n) st1)"
      by (rule close_loop_first_ok)
    ultimately show ?thesis using p close by (simp add: UCPEndpoint_dtor_def)
  qed
  have tr_free: "trace (ucp_request_free lib request s) = trace s @ [Call_request_free request]" for s
    by (simp add: ucp_request_free_def)
  have tr_ptr: "trace (ucp_request_free lib request (loop_state lib (ep_worker this) request (Suc n) st1)) =
          trace st0 @
          [Call_ep_close_nb (endpoint this) UCP_EP_CLOSE_MODE_FLUSH] @
          concat (replicate (Suc n)
            [Call_worker_progress (worker (ep_worker this)), Call_request_check_status request]) @
          [Call_request_free request]"
    by (simp only: tr_free trace_loop_state tr1 append_assoc)
  have tr_err: "trace (TORCH_WARN msg st1) =
          trace st0 @ [Call_ep_close_nb (endpoint this) UCP_EP_CLOSE_MODE_FLUSH, Call_TORCH_WARN msg]" for msg
    by (simp add: TORCH_WARN_def tr1)
  have null: "UCPEndpoint_dtor lib this st0 = Some st1" if "request = NullPtr"
    using that close by (simp add: UCPEndpoint_dtor_def)
  from err ptr tr_ptr tr_err null tr1 show ?thesis by blast
qed

theorem endpoint_dtor_close_protocol_witness:
  "(\<exists>st'. UCPEndpoint_dtor close_fails_lib endpoint0 world0 = Some st' \<and>
      trace st' =
        [Call_ep_close_nb 4 UCP_EP_CLOSE_MODE_FLUSH,
         Call_TORCH_WARN ''Will leak endpoint because it fails to close. Error: Failure'']) \<and>
   (\<exists>st'. UCPEndpoint_dtor close_pending_lib endpoint0 world0 = Some st' \<and>
      trace st' =
        [Call_ep_close_nb 4 UCP_EP_CLOSE_MODE_FLUSH,
         Call_worker_progress 0, Call_request_check_status (ReqPtr 7),
         Call_worker_progress 0, Call_request_check_status (ReqPtr 7),
         Call_request_free (ReqPtr 7)])"
proof -
  let ?st1 = "world0\<lparr>trace := [Call_ep_close_nb 4 UCP_EP_CLOSE_MODE_FLUSH]\<rparr>"
  have close_err: "ucp_ep_close_nb close_fails_lib (endpoint endpoint0) UCP_EP_CLOSE_MODE_FLUSH world0 =
      (ErrPtr 3, ?st1)"
    by (simp add: ucp_ep_close_nb_def close_fails_lib_def idle_lib_def endpoint0_def world0_def)
  have close_ptr: "ucp_ep_close_nb close_pending_lib (endpoint endpoint0) UCP_EP_CLOSE_MODE_FLUSH world0 =
      (ReqPtr 7, ?st1)"
    by (simp add: ucp_ep_close_nb_def close_pending_lib_def idle_lib_def endpoint0_def world0_def)
  have first: "UCS_PTR_IS_PTR (ReqPtr 7) \<and>
      (\<forall>k<1. loop_status close_pending_lib (ep_worker endpoint0) (ReqPtr 7) k ?st1 \<noteq> UCS_OK) \<and>
      loop_status close_pending_lib (ep_worker endpoint0) (ReqPtr 7) 1 ?st1 = UCS_OK"
    by (simp add: pending_status endpoint0_def)
  have msg: "close_warning close_fails_lib (ErrPtr 3) =
      ''Will leak endpoint because it fails to close. Error: Failure''"
    by (simp add: close_warning_def close_fails_lib_def idle_lib_def)
  have w0: "trace world0 = []" "endpoint endpoint0 = 4" "worker (ep_worker endpoint0) = 0"
    by (simp_all add: world0_def endpoint0_def)
  have "UCS_PTR_IS_ERR (ErrPtr 3)" by simp
  with endpoint_dtor_close_protocol[OF close_err, of 0]
  have "UCPEndpoint_dtor close_fails_lib endpoint0 world0 =
          Some (TORCH_WARN (close_warning close_fails_lib (ErrPtr 3)) ?st1) \<and>
        trace (TORCH_WARN (close_warning close_fails_lib (ErrPtr 3)) ?st1) =
          trace world0 @
          [Call_ep_close_nb (endpoint endpoint0) UCP_EP_CLOSE_MODE_FLUSH,
           Call_TORCH_WARN (close_warning close_fails_lib (ErrPtr 3))]"
    by blast
  then have a: "\<exists>st'. UCPEndpoint_dtor close_fails_lib endpoint0 world0 = Some st' \<and>
      trace st' =
        [Call_ep_close_nb 4 UCP_EP_CLOSE_MODE_FLUSH,
         Call_TORCH_WARN ''Will leak endpoint because it fails to close. Error: Failure'']"
    unfolding msg w0 by simp
  let ?fin = "ucp_request_free close_pending_lib (ReqPtr 7)
                (loop_state close_pending_lib (ep_worker endpoint0) (ReqPtr 7) (Suc 1) ?st1)"
  from endpoint_dtor_close_protocol[OF close_ptr, of 1] first
  have "UCPEndpoint_dtor close_pending_lib endpoint0 world0 = Some ?fin \<and>
        trace ?fin =
          trace world0 @
          [Call_ep_close_nb (endpoint endpoint0) UCP_EP_CLOSE_MODE_FLUSH] @
          concat (replicate (Suc 1)
            [Call_worker_progress (worker (ep_worker endpoint0)),
             Call_request_check_status (ReqPtr 7)]) @
          [Call_request_free (ReqPtr 7)]"
    by blast
  then have b: "\<exists>st'. UCPEndpoint_dtor close_pending_lib endpoint0 world0 = Some st' \<and>
      trace st' =
        [Call_ep_close_nb 4 UCP_EP_CLOSE_MODE_FLUSH,
         Call_worker_progress 0, Call_request_check_status (ReqPtr 7),
         Call_worker_progress 0, Call_request_check_status (ReqPtr 7),
         Call_request_free (ReqPtr 7)]"
    unfolding w0 by simp
  from a b show ?thesis by blast
qed

text \<open>
  C5. The completion flag of a request.
  \<^item> Once the context has been constructed, a request object allocated under its
    registration starts with the flag false: the initializer the constructor registers
    clears it.
  \<^item> The completion callback of the parameter block sets the flag to true.
  \<^item> A request with no native handle (an operation that completed at submission) reads
    as complete in every state.
  \<^item> For a request object submitted with that callback: if the flag reads true after the
    progress calls \<open>ws1\<close>, it reads true after any further progress calls \<open>ws2\<close>. So along
    any sequence of progress calls the flag changes at most once, from false to true.
\<close>

theorem completion_flag_lifecycle:
  "(UCPContext_ctor lib st0 = (Inr c, st) \<and> registered s = registered st \<longrightarrow>
      is_completed (alloc_request lib params (ReqPtr a) s) (UCPRequest (ReqPtr a)) = Some False) \<and>
   completed (cb_recv (p2p_params sz device) d status info user_data) \<and>
   is_completed s (UCPRequest NullPtr) = Some True \<and>
   (requests s a = Some sl \<and> slot_cb sl = Some (cb_recv (p2p_params sz device)) \<and>
    is_completed (fold (progress lib) ws1 s) (UCPRequest (ReqPtr a)) = Some True \<longrightarrow>
      is_completed (fold (progress lib) (ws1 @ ws2) s) (UCPRequest (ReqPtr a)) = Some True)"
proof -
  have init: "is_completed (alloc_request lib params (ReqPtr a) s) (UCPRequest (ReqPtr a)) = Some False"
    if "UCPContext_ctor lib st0 = (Inr c, st)" "registered s = registered st"
  proof -
    from ctor_registers[OF that(1)] that(2) obtain cp where
      "registered s = Some cp" "UCP_PARAM_FIELD_REQUEST_INIT \<in> field_mask cp"
      "request_init cp = (\<lambda>r. r\<lparr>completed := False\<rparr>)"
      by auto
    then show ?thesis by (simp add: alloc_request_def is_completed_def)
  qed
  have cb: "completed (cb_recv (p2p_params sz device) d status info user_data)"
    by (simp add: p2p_params_def)
  have null: "is_completed s (UCPRequest NullPtr) = Some True"
    by (simp add: is_completed_def)
  have mono: "is_completed (fold (progress lib) (ws1 @ ws2) s) (UCPRequest (ReqPtr a)) = Some True"
    if slot: "requests s a = Some sl" "slot_cb sl = Some (cb_recv (p2p_params sz device))"
      and compl: "is_completed (fold (progress lib) ws1 s) (UCPRequest (ReqPtr a)) = Some True"
  proof -
    from fold_progress_slot[of s a sl sz device lib ws1, OF slot] obtain sl1 where
      s1: "requests (fold (progress lib) ws1 s) a = Some sl1" "slot_cb sl1 = slot_cb sl"
      by blast
    from compl s1(1) have c1: "completed (slot_data sl1)" by (simp add: is_completed_def)
    from s1(2) slot(2) have "slot_cb sl1 = Some (cb_recv (p2p_params sz device))" by simp
    from fold_progress_slot[of "fold (progress lib) ws1 s" a sl1 sz device lib ws2, OF s1(1) this] c1
    obtain sl2 where "requests (fold (progress lib) ws2 (fold (progress lib) ws1 s)) a = Some sl2"
      "completed (slot_data sl2)"
      by blast
    then show ?thesis by (simp add: is_completed_def)
  qed
  from init cb null mono show ?thesis by blast
qed

theorem completion_flag_lifecycle_witness:
  "is_completed (alloc_request idle_lib (p2p_params 5 kCPU) (ReqPtr 0) world_ctx)
     (UCPRequest (ReqPtr 0)) = Some False \<and>
   is_completed (snd (recv_with_tag recv_slow_lib (UCPWorker 0) 100 5 7 kCPU world_ctx))
     (UCPRequest (ReqPtr 0)) = Some False \<and>
   is_completed
     (fold (progress recv_slow_lib) [UCPWorker 0, UCPWorker 0]
        (snd (recv_with_tag recv_slow_lib (UCPWorker 0) 100 5 7 kCPU world_ctx)))
     (UCPRequest (ReqPtr 0)) = Some True \<and>
   is_completed
     (fold (progress recv_slow_lib) ([UCPWorker 0, UCPWorker 0] @ [UCPWorker 0, UCPWorker 0, UCPWorker 0])
        (snd (recv_with_tag recv_slow_lib (UCPWorker 0) 100 5 7 kCPU world_ctx)))
     (UCPRequest (ReqPtr 0)) = Some True"
proof -
  let ?s = "snd (recv_with_tag recv_slow_lib (UCPWorker 0) 100 5 7 kCPU world_ctx)"
  let ?sl = "\<lparr>slot_data = \<lparr>completed = False\<rparr>, slot_cb = Some (cb_recv (p2p_params 5 kCPU))\<rparr>"
  have ctor: "UCPContext_ctor idle_lib world0 = (Inr (UCPContext 1), world_ctx)"
    by (simp add: run_defs lib_defs)
  have slot: "requests ?s 0 = Some ?sl"
    by (simp add: run_defs lib_defs)
  have pending: "is_completed ?s (UCPRequest (ReqPtr 0)) = Some False"
    by (simp add: run_defs lib_defs)
  have compl: "is_completed (fold (progress recv_slow_lib) [UCPWorker 0, UCPWorker 0] ?s)
      (UCPRequest (ReqPtr 0)) = Some True"
    by (simp add: run_defs lib_defs)
  from completion_flag_lifecycle[where lib = idle_lib and ?st0.0 = world0 and c = "UCPContext 1"
      and st = world_ctx and s = world_ctx and params = "p2p_params 5 kCPU" and a = 0] ctor
  have a: "is_completed (alloc_request idle_lib (p2p_params 5 kCPU) (ReqPtr 0) world_ctx)
     (UCPRequest (ReqPtr 0)) = Some False"
    by simp
  from completion_flag_lifecycle[where lib = recv_slow_lib and s = ?s and a = 0 and sl = ?sl
      and sz = 5 and device = kCPU and ?ws1.0 = "[UCPWorker 0, UCPWorker 0]"
      and ?ws2.0 = "[UCPWorker 0, UCPWorker 0, UCPWorker 0]"] slot compl
  have b: "is_completed
     (fold (progress recv_slow_lib) ([UCPWorker 0, UCPWorker 0] @ [UCPWorker 0, UCPWorker 0, UCPWorker 0]) ?s)
     (UCPRequest (ReqPtr 0)) = Some True"
    by simp
  from a pending compl b show ?thesis by blast
qed

text \<open>
  C7. The first call of every send and receive is the native operation, and the
  parameter block it is called with carries the memory type of the device kind: host for
  CPU, CUDA for CUDA, ROCm for HIP (and unknown for every other device kind).
\<close>

theorem memory_type_annotation:
  "call_memory_type (first_call st0 (snd (recv_with_tag lib w buf sz tag device st0))) =
     Some (getUCSMemoryType device) \<and>
   call_memory_type (first_call st0 (snd (send_with_tag lib ep buf sz tag device st0))) =
     Some (getUCSMemoryType device) \<and>
   call_memory_type (first_call st0 (snd (ep_recv_with_tag lib ep buf sz tag device st0))) =
     Some (getUCSMemoryType device) \<and>
   getUCSMemoryType kCPU = UCS_MEMORY_TYPE_HOST \<and>
   getUCSMemoryType kCUDA = UCS_MEMORY_TYPE_CUDA \<and>
   getUCSMemoryType kHIP = UCS_MEMORY_TYPE_ROCM \<and>
   getUCSMemoryType (kOtherDevice k) = UCS_MEMORY_TYPE_UNKNOWN"
  by (simp add: first_call_recv first_call_send first_call_ep_recv p2p_params_def)

theorem memory_type_annotation_witness:
  "call_memory_type (first_call world0 (snd (recv_with_tag both_pending_lib (UCPWorker 1) 100 5 7 kCPU world0))) =
     Some UCS_MEMORY_TYPE_HOST \<and>
   call_memory_type (first_call world0 (snd (send_with_tag both_pending_lib endpoint0 200 5 7 kCUDA world0))) =
     Some UCS_MEMORY_TYPE_CUDA \<and>
   call_memory_type (first_call world0 (snd (ep_recv_with_tag both_pending_lib endpoint0 100 5 7 kHIP world0))) =
     Some UCS_MEMORY_TYPE_ROCM"
  using memory_type_annotation[of world0 both_pending_lib "UCPWorker 1" 100 5 7 kCPU endpoint0]
    memory_type_annotation[of world0 both_pending_lib "UCPWorker 1" 200 5 7 kCUDA endpoint0]
    memory_type_annotation[of world0 both_pending_lib "UCPWorker 1" 100 5 7 kHIP endpoint0]
  by simp

text \<open>
  C8. Let the native address query report the status \<open>s\<close> and the address bytes
  \<open>local_addr\<close>, where the library reports a non-empty address whenever the query
  succeeds.
  \<^item> If \<open>s\<close> is \<open>UCS_OK\<close>, \<open>address()\<close> returns a non-empty byte sequence, equal to the
    bytes the library reported, and it has made exactly two calls: the query, then the
    release of the native buffer.
  \<^item> Otherwise it fails with the transport error, after the query alone.
\<close>

theorem address_returns_native_bytes:
  assumes query: "lib_worker_get_address lib (native st0) (worker this) = (s, local_addr, n')"
    and nonempty: "s = UCS_OK \<Longrightarrow> local_addr \<noteq> []"
  shows
    "(s = UCS_OK \<longrightarrow>
        (\<exists>addr. fst (address lib this st0) = Inr addr \<and> addr \<noteq> [] \<and> addr = local_addr) \<and>
        trace (snd (address lib this st0)) =
          trace st0 @ [Call_worker_get_address (worker this),
                       Call_worker_release_address (worker this)]) \<and>
     (s \<noteq> UCS_OK \<longrightarrow>
        fst (address lib this st0) = Inl (c10_Error ''Failed to get worker address.'') \<and>
        trace (snd (address lib this st0)) = trace st0 @ [Call_worker_get_address (worker this)])"
proof -
  have ok: "fst (address lib this st0) = Inr local_addr" if "s = UCS_OK"
    using that query
    by (simp add: address_def ucp_worker_get_address_def TORCH_UCX_CHECK_def Let_def)
  have ok_trace: "trace (snd (address lib this st0)) =
      trace st0 @ [Call_worker_get_address (worker this),
                   Call_worker_release_address (worker this)]" if "s = UCS_OK"
    using that query
    by (simp add: address_def ucp_worker_get_address_def ucp_worker_release_address_def
        TORCH_UCX_CHECK_def Let_def)
  have err: "fst (address lib this st0) = Inl (c10_Error ''Failed to get worker address.'') \<and>
      trace (snd (address lib this st0)) = trace st0 @ [Call_worker_get_address (worker this)]"
    if "s \<noteq> UCS_OK"
    using that query
    by (simp add: address_def ucp_worker_get_address_def TORCH_UCX_CHECK_def Let_def)
  from ok ok_trace err nonempty show ?thesis by blast
qed

theorem address_returns_native_bytes_witness:
  "fst (address idle_lib (UCPWorker 0) world0) = Inr [0x75, 0x63, 0x78] \<and>
   [0x75, 0x63, 0x78] \<noteq> ([] :: 8 word list) \<and>
   trace (snd (address idle_lib (UCPWorker 0) world0)) =
     [Call_worker_get_address 0, Call_worker_release_address 0] \<and>
   fst (address address_fails_lib (UCPWorker 0) world0) =
     Inl (c10_Error ''Failed to get worker address.'') \<and>
   trace (snd (address address_fails_lib (UCPWorker 0) world0)) = [Call_worker_get_address 0]"
proof -
  have q1: "lib_worker_get_address idle_lib (native world0) (worker (UCPWorker 0)) =
      (UCS_OK, [0x75, 0x63, 0x78], 0)"
    by (simp add: idle_lib_def world0_def)
  have n1: "UCS_OK = UCS_OK \<Longrightarrow> [0x75, 0x63, 0x78] \<noteq> ([] :: 8 word list)"
    by simp
  have q2: "lib_worker_get_address address_fails_lib (native world0) (worker (UCPWorker 0)) =
      (UCS_ERR 2, [], 0)"
    by (simp add: address_fails_lib_def idle_lib_def world0_def)
  have n2: "UCS_ERR 2 = UCS_OK \<Longrightarrow> ([] :: 8 word list) \<noteq> []"
    by simp
  have t0: "trace world0 = []" by (simp add: world0_def)
  from address_returns_native_bytes[OF q1 n1] address_returns_native_bytes[OF q2 n2] t0
  show ?thesis by simp
qed

text \<open>
  C9. The completion callback of the parameter block returns the same request state for
  every status as for \<open>UCS_OK\<close>, with the flag true. For a request object submitted with
  it, a completion delivered with any status leaves the same request memory as one
  delivered with \<open>UCS_OK\<close>, and the request then reads as complete.
\<close>

theorem completion_callback_ignores_status:
  "cb_recv (p2p_params sz device) r status info user_data =
     cb_recv (p2p_params sz device) r UCS_OK info user_data \<and>
   completed (cb_recv (p2p_params sz device) r status info user_data) \<and>
   (requests st a = Some sl \<and> slot_cb sl = Some (cb_recv (p2p_params sz device)) \<longrightarrow>
      deliver (a, status, info, user_data) (requests st) =
        deliver (a, UCS_OK, info, user_data) (requests st) \<and>
      is_completed (st\<lparr>requests := deliver (a, status, info, user_data) (requests st)\<rparr>)
        (UCPRequest (ReqPtr a)) = Some True)"
  by (simp add: p2p_params_def is_completed_def)

theorem completion_callback_ignores_status_witness:
  "is_completed
     (snd (recv_with_tag (recv_completes_lib (UCS_ERR 9)) (UCPWorker 0) 100 5 7 kCPU world_ctx))
     (UCPRequest (ReqPtr 0)) = Some True \<and>
   is_completed
     (snd (recv_with_tag (recv_completes_lib UCS_OK) (UCPWorker 0) 100 5 7 kCPU world_ctx))
     (UCPRequest (ReqPtr 0)) = Some True \<and>
   completed (cb_recv (p2p_params 5 kCPU) \<lparr>completed = False\<rparr> (UCS_ERR 9)
                \<lparr>sender_tag = 7, info_length = 5\<rparr> 0)"
proof -
  let ?st = "snd (ucp_tag_recv_nbx (recv_completes_lib (UCS_ERR 9)) 0 100 1 7 0 (p2p_params 5 kCPU) world_ctx)"
  let ?sl = "\<lparr>slot_data = \<lparr>completed = False\<rparr>, slot_cb = Some (cb_recv (p2p_params 5 kCPU))\<rparr>"
  let ?info = "\<lparr>sender_tag = 7, info_length = 5\<rparr>"
  have slot: "requests ?st 0 = Some ?sl"
    by (simp add: run_defs lib_defs)
  have run: "requests (snd (recv_with_tag (recv_completes_lib (UCS_ERR 9)) (UCPWorker 0) 100 5 7 kCPU world_ctx))
      = deliver (0, UCS_ERR 9, ?info, 0) (requests ?st)"
    by (simp add: run_defs lib_defs)
  have slcb: "slot_cb ?sl = Some (cb_recv (p2p_params 5 kCPU))"
    by simp
  from completion_callback_ignores_status[of 5 kCPU "\<lparr>completed = False\<rparr>" "UCS_ERR 9" ?info 0 ?st 0 ?sl]
    slot slcb
  have th: "completed (cb_recv (p2p_params 5 kCPU) \<lparr>completed = False\<rparr> (UCS_ERR 9) ?info 0) \<and>
      is_completed (?st\<lparr>requests := deliver (0, UCS_ERR 9, ?info, 0) (requests ?st)\<rparr>)
        (UCPRequest (ReqPtr 0)) = Some True"
    by blast
  have "is_completed (snd (recv_with_tag (recv_completes_lib (UCS_ERR 9)) (UCPWorker 0) 100 5 7 kCPU world_ctx))
      (UCPRequest (ReqPtr 0)) =
    is_completed (?st\<lparr>requests := deliver (0, UCS_ERR 9, ?info, 0) (requests ?st)\<rparr>)
        (UCPRequest (ReqPtr 0))"
    by (simp add: is_completed_def run)
  with th have a: "is_completed
     (snd (recv_with_tag (recv_completes_lib (UCS_ERR 9)) (UCPWorker 0) 100 5 7 kCPU world_ctx))
     (UCPRequest (ReqPtr 0)) = Some True"
    by simp
  have b: "is_completed
     (snd (recv_with_tag (recv_completes_lib UCS_OK) (UCPWorker 0) 100 5 7 kCPU world_ctx))
     (UCPRequest (ReqPtr 0)) = Some True"
    by (simp add: run_defs lib_defs)
  from a b th show ?thesis by blast
qed

text \<open>
  C10. When the close request is pending, the destructor returns exactly when some
  status check of the loop reports \<open>UCS_OK\<close>: the loop exits on no other status. In
  particular, if the checks never report \<open>UCS_OK\<close> before iteration \<open>m\<close> and report the
  error status \<open>UCS_ERR e\<close> from iteration \<open>m\<close> on, the destructor never returns.
\<close>

theorem endpoint_dtor_terminates_iff_ok:
  assumes close: "ucp_ep_close_nb lib (endpoint this) UCP_EP_CLOSE_MODE_FLUSH st0 = (request, st1)"
    and pending: "UCS_PTR_IS_PTR request"
  shows "((UCPEndpoint_dtor lib this st0 \<noteq> None) =
            (\<exists>n. loop_status lib (ep_worker this) request n st1 = UCS_OK)) \<and>
         ((\<forall>k<m. loop_status lib (ep_worker this) request k st1 \<noteq> UCS_OK) \<and>
          (\<forall>k\<ge>m. loop_status lib (ep_worker this) request k st1 = UCS_ERR e)
          \<longrightarrow> UCPEndpoint_dtor lib this st0 = None)"
proof -
  from pending have noerr: "\<not> UCS_PTR_IS_ERR request" by (cases request) simp_all
  have dtor: "UCPEndpoint_dtor lib this st0 =
      (case close_loop lib (ep_worker this) request st1 of
         None \<Rightarrow> None | Some st3 \<Rightarrow> Some (ucp_request_free lib request st3))"
    using close pending noerr by (simp add: UCPEndpoint_dtor_def)
  then have "(UCPEndpoint_dtor lib this st0 \<noteq> None) =
      (close_loop lib (ep_worker this) request st1 \<noteq> None)"
    by (simp split: option.splits)
  then have iff: "(UCPEndpoint_dtor lib this st0 \<noteq> None) =
           (\<exists>n. loop_status lib (ep_worker this) request n st1 = UCS_OK)"
    by (simp only: close_loop_terminates_iff)
  have "UCPEndpoint_dtor lib this st0 = None"
    if a: "(\<forall>k<m. loop_status lib (ep_worker this) request k st1 \<noteq> UCS_OK) \<and>
         (\<forall>k\<ge>m. loop_status lib (ep_worker this) request k st1 = UCS_ERR e)"
  proof -
    have "loop_status lib (ep_worker this) request n st1 \<noteq> UCS_OK" for n
    proof (cases "n < m")
      case True with a show ?thesis by blast
    next
      case False
      then have "m \<le> n" by simp
      with a have "loop_status lib (ep_worker this) request n st1 = UCS_ERR e" by blast
      then show ?thesis by simp
    qed
    with iff show ?thesis by simp
  qed
  with iff show ?thesis by blast
qed

theorem endpoint_dtor_terminates_iff_ok_witness:
  "UCPEndpoint_dtor close_settles_in_error_lib endpoint0 world0 = None \<and>
   UCPEndpoint_dtor close_pending_lib endpoint0 world0 \<noteq> None"
proof -
  let ?st1 = "world0\<lparr>trace := [Call_ep_close_nb 4 UCP_EP_CLOSE_MODE_FLUSH]\<rparr>"
  have close: "ucp_ep_close_nb close_settles_in_error_lib (endpoint endpoint0)
                 UCP_EP_CLOSE_MODE_FLUSH world0 = (ReqPtr 7, ?st1)"
    by (simp add: ucp_ep_close_nb_def close_settles_in_error_lib_def idle_lib_def endpoint0_def
        world0_def)
  have ptr: "UCS_PTR_IS_PTR (ReqPtr 7)" by simp
  have never: "(\<forall>k<1. loop_status close_settles_in_error_lib (ep_worker endpoint0) (ReqPtr 7) k ?st1 \<noteq> UCS_OK) \<and>
     (\<forall>k\<ge>1. loop_status close_settles_in_error_lib (ep_worker endpoint0) (ReqPtr 7) k ?st1 = UCS_ERR 5)"
    by (simp add: settles_status endpoint0_def)
  have close2: "ucp_ep_close_nb close_pending_lib (endpoint endpoint0)
                 UCP_EP_CLOSE_MODE_FLUSH world0 = (ReqPtr 7, ?st1)"
    by (simp add: ucp_ep_close_nb_def close_pending_lib_def idle_lib_def endpoint0_def
        world0_def)
  have ok: "loop_status close_pending_lib (ep_worker endpoint0) (ReqPtr 7) (Suc 0) ?st1 = UCS_OK"
    by (simp add: loop_status_def close_iter_def ucp_request_check_status_def progress_def
        ucp_worker_progress_def close_pending_lib_def idle_lib_def endpoint0_def world0_def)
  from endpoint_dtor_terminates_iff_ok[OF close ptr, of 1 5] never
  have "UCPEndpoint_dtor close_settles_in_error_lib endpoint0 world0 = None" by blast
  moreover from endpoint_dtor_terminates_iff_ok[OF close2 ptr, of 0 0] ok
  have "UCPEndpoint_dtor close_pending_lib endpoint0 world0 \<noteq> None" by blast
  ultimately show ?thesis by blast
qed

end
